theory Spec2Isabelle
  imports Complex_Main "HOL-Library.Sublist" "HOL-Library.Log_Nat"
begin

section \<open>Wardrobe door and liner calculator\<close>

text \<open>
  A shallow embedding of \<^verbatim>\<open>src/app.py\<close>: the dimensioning function
  \<^verbatim>\<open>calculate_for_row\<close> and the rectangles of \<^verbatim>\<open>draw_wardrobe_diagram\<close>.

  A Python float is modelled by the rational number it stands for, and every float
  operation rounds its exact result to the nearest double, a tie going to the even
  significand, as IEEE 754 binary64 does. Results beyond the range of a double, where
  Python gives \<^verbatim>\<open>inf\<close> or raises \<^verbatim>\<open>OverflowError\<close>, and the values
  \<^verbatim>\<open>nan\<close> and \<^verbatim>\<open>inf\<close> themselves are not modelled. Python strings are
  modelled as byte strings in UTF-8, so a character outside ASCII is written as its
  bytes.
\<close>

subsection \<open>Python built-ins\<close>

text \<open>\<^verbatim>\<open>int(x)\<close> on a float truncates towards zero.\<close>

definition py_int :: "rat \<Rightarrow> int" where
  "py_int x = (if 0 \<le> x then \<lfloor>x\<rfloor> else \<lceil>x\<rceil>)"

text \<open>\<^verbatim>\<open>round(x)\<close> gives the nearest integer, a tie going to the even neighbour.\<close>

definition py_round :: "rat \<Rightarrow> int" where
  "py_round x =
     (let f = \<lfloor>x\<rfloor>; d = x - of_int f
      in if d < 1 / 2 then f
         else if 1 / 2 < d then f + 1
         else if even f then f else f + 1)"

text \<open>
  The exponent of the leading bit of a number other than 0: \<open>2 ^ e \<le> \<bar>x\<bar> < 2 ^ (e + 1)\<close>.
\<close>

definition float_exponent :: "rat \<Rightarrow> int" where
  "float_exponent x =
     (if 1 \<le> \<bar>x\<bar> then bitlen \<lfloor>\<bar>x\<bar>\<rfloor> - 1 else - bitlen (\<lceil>1 / \<bar>x\<bar>\<rceil> - 1))"

text \<open>
  \<^verbatim>\<open>float(x)\<close>, and the rounding of every float operation: the nearest multiple of
  \<open>2 ^ (e - 52)\<close>, and of \<open>2 ^ (- 1074)\<close> below the normal range, ties to even.
\<close>

definition py_float :: "rat \<Rightarrow> rat" where
  "py_float x =
     (let k = min (52 - float_exponent x) 1074
      in if 0 \<le> k then of_int (py_round (x * 2 ^ nat k)) / 2 ^ nat k
         else of_int (py_round (x / 2 ^ nat (- k))) * 2 ^ nat (- k))"

text \<open>
  The float operations \<^verbatim>\<open>+\<close>, \<^verbatim>\<open>-\<close>, \<^verbatim>\<open>*\<close> and \<^verbatim>\<open>/\<close>. The source
  divides by 2, by a door count of 1 or more, by a width or height of 1 or more, and by
  a total span that it has tested to be positive, so no division is by 0.
\<close>

definition fadd :: "rat \<Rightarrow> rat \<Rightarrow> rat" where
  "fadd a b = py_float (a + b)"

definition fsub :: "rat \<Rightarrow> rat \<Rightarrow> rat" where
  "fsub a b = py_float (a - b)"

definition fmul :: "rat \<Rightarrow> rat \<Rightarrow> rat" where
  "fmul a b = py_float (a * b)"

definition fdiv :: "rat \<Rightarrow> rat \<Rightarrow> rat" where
  "fdiv a b = py_float (a / b)"

text \<open>
  \<^verbatim>\<open>round(x, 1)\<close>: the double nearest to \<open>x\<close> rounded to one decimal place, ties to
  even.
\<close>

definition py_round1 :: "rat \<Rightarrow> rat" where
  "py_round1 x = py_float (of_int (py_round (x * 10)) / 10)"

text \<open>\<^verbatim>\<open>str(n)\<close> for an integer, as the f-strings of the source format it.\<close>

fun str_nat :: "nat \<Rightarrow> string" where
  "str_nat n =
     (if n < 10 then [''0123456789'' ! n]
      else str_nat (n div 10) @ [''0123456789'' ! (n mod 10)])"

declare str_nat.simps [simp del]

definition str_int :: "int \<Rightarrow> string" where
  "str_int i = (if i < 0 then CHR ''-'' # str_nat (nat (- i)) else str_nat (nat i))"

subsection \<open>System constants\<close>

definition BOTTOM_LINER_THICKNESS :: int where
  "BOTTOM_LINER_THICKNESS = 36"

definition SIDE_LINER_THICKNESS :: int where
  "SIDE_LINER_THICKNESS = 18"

definition TRACKSET_TOLERANCE :: int where
  "TRACKSET_TOLERANCE = 54"

definition MAX_DOOR_HEIGHT :: int where
  "MAX_DOOR_HEIGHT = 2431"

definition MAX_DROPDOWN_LIMIT :: int where
  "MAX_DROPDOWN_LIMIT = 400"

definition FIXED_DOOR_HEIGHT :: int where
  "FIXED_DOOR_HEIGHT = 2223"

definition FIXED_DOOR_WIDTH_OPTIONS :: "rat list" where
  "FIXED_DOOR_WIDTH_OPTIONS = [610, 762, 914]"

definition OVERLAP_TOLERANCES :: "int \<rightharpoonup> int" where
  "OVERLAP_TOLERANCES = map_of [(2, 75), (3, 150), (4, 150)]"

definition DEFAULT_FIXED_OVERLAP_TOLERANCE :: int where
  "DEFAULT_FIXED_OVERLAP_TOLERANCE = 150"

definition TOP_LINER_OPTIONS :: "string \<rightharpoonup> int" where
  "TOP_LINER_OPTIONS =
     map_of [(''108mm Dropdown'', 108), (''90mm Dropdown'', 90),
             (''50mm Dropdown'', 50), (''No dropdown (0mm)'', 0)]"

definition BESPOKE_DROPDOWN_LABEL :: string where
  "BESPOKE_DROPDOWN_LABEL = ''Bespoke dropdown (auto)''"

definition CUSTOM_DOOR_OVERLAP_MM :: int where
  "CUSTOM_DOOR_OVERLAP_MM = 25"

lemmas constants_defs =
  BOTTOM_LINER_THICKNESS_def SIDE_LINER_THICKNESS_def TRACKSET_TOLERANCE_def
  MAX_DOOR_HEIGHT_def MAX_DROPDOWN_LIMIT_def FIXED_DOOR_HEIGHT_def
  FIXED_DOOR_WIDTH_OPTIONS_def OVERLAP_TOLERANCES_def DEFAULT_FIXED_OVERLAP_TOLERANCE_def
  TOP_LINER_OPTIONS_def BESPOKE_DROPDOWN_LABEL_def CUSTOM_DOOR_OVERLAP_MM_def

subsection \<open>Rows and results\<close>

text \<open>
  An input row. A field is \<open>None\<close> when the row has no such column: \<^verbatim>\<open>row["k"]\<close>
  raises \<^verbatim>\<open>KeyError\<close> then, and \<^verbatim>\<open>row.get("k", d)\<close> gives the default \<open>d\<close>.
  A number of the row is an integer or a float.
\<close>

record row =
  Width_mm :: "rat option"
  Height_mm :: "rat option"
  Doors :: "rat option"
  Door_System :: "string option"
  Top_Liner_Option :: "string option"
  Fixed_Door_Width_mm :: "rat option"

text \<open>The row of \<^verbatim>\<open>DEFAULT_DATA\<close>, without its two name columns.\<close>

definition DEFAULT_DATA :: row where
  "DEFAULT_DATA =
     \<lparr> Width_mm = Some 2200, Height_mm = Some 2600, Doors = Some 3,
       Door_System = Some ''Made to measure doors'',
       Top_Liner_Option = Some ''108mm Dropdown'', Fixed_Door_Width_mm = Some 762 \<rparr>"

datatype error = KeyError string

text \<open>The series that \<^verbatim>\<open>calculate_for_row\<close> returns, one field per key.\<close>

record result =
  Door_Height_mm :: int
  Door_Width_mm :: int
  Doors_Used :: int
  Dropdown_Height_mm :: int
  Recommended_Dropdown_Height_mm :: "int option"
  Side_Liner_Thickness_mm :: rat
  Required_Buildout_Per_Side_mm :: rat
  Net_Width_mm :: int
  Door_Span_mm :: int
  Overlap_Tolerance_mm :: int
  Span_Diff_mm :: rat
  Bottom_Liner_Length_mm :: int
  Side_Liner_Length_mm :: int
  Dropdown_Length_mm :: int
  Trackset_Tolerance_mm :: int
  Height_Status :: string
  Issue :: string

text \<open>
  The two values of the issue flag: a check mark (U+2705) followed by \<^verbatim>\<open> OK\<close>, and a
  red circle (U+1F534) followed by \<^verbatim>\<open> Check height\<close>.
\<close>

definition issue_ok :: string where
  "issue_ok = [CHR 0xE2, CHR 0x9C, CHR 0x85] @ '' OK''"

definition issue_check :: string where
  "issue_check = [CHR 0xF0, CHR 0x9F, CHR 0x94, CHR 0xB4] @ '' Check height''"

text \<open>The en dash (U+2013) of two status messages.\<close>

definition en_dash :: string where
  "en_dash = [CHR 0xE2, CHR 0x80, CHR 0x93]"

subsection \<open>The fixed 2223mm door system\<close>

text \<open>
  The door width chosen in the row, 762 when the row has none or has one that is not
  among the three stock widths.
\<close>

definition fixed_door_width :: "row \<Rightarrow> rat" where
  "fixed_door_width row =
     (let door_width =
            py_float (case Fixed_Door_Width_mm row of None \<Rightarrow> 762 | Some v \<Rightarrow> v)
      in if door_width \<notin> set FIXED_DOOR_WIDTH_OPTIONS then 762 else door_width)"

text \<open>\<^verbatim>\<open>OVERLAP_TOLERANCES.get(doors, DEFAULT_FIXED_OVERLAP_TOLERANCE)\<close>\<close>

definition fixed_tol :: "int \<Rightarrow> int" where
  "fixed_tol doors =
     (case OVERLAP_TOLERANCES doors of
        None \<Rightarrow> DEFAULT_FIXED_OVERLAP_TOLERANCE
      | Some t \<Rightarrow> t)"

text \<open>The side liner thickness that makes the door span exceed the net width by \<open>tol\<close>.\<close>

definition side_thk_raw :: "rat \<Rightarrow> rat \<Rightarrow> int \<Rightarrow> rat" where
  "side_thk_raw width door_span tol = fdiv (fadd (fsub width door_span) (of_int tol)) 2"

text \<open>The thickness used: the raw one, or 0 when that is negative.\<close>

definition clamp_side_thk :: "rat \<Rightarrow> rat \<Rightarrow> int \<Rightarrow> rat" where
  "clamp_side_thk width door_span tol =
     (if side_thk_raw width door_span tol < 0 then 0 else side_thk_raw width door_span tol)"

text \<open>The span of the doors: the door count, converted to a float, times the door width.\<close>

definition fixed_door_span :: "row \<Rightarrow> int \<Rightarrow> rat" where
  "fixed_door_span row doors = fmul (py_float (of_int doors)) (fixed_door_width row)"

definition fixed_mode :: "row \<Rightarrow> rat \<Rightarrow> rat \<Rightarrow> int \<Rightarrow> result" where
  "fixed_mode row width height doors =
     (let door_height = rat_of_int FIXED_DOOR_HEIGHT;
          door_width = fixed_door_width row;
          dropdown_h_raw =
            fsub (fsub (fsub height (of_int BOTTOM_LINER_THICKNESS))
                    (of_int TRACKSET_TOLERANCE))
              door_height;
          (dropdown_h, height_status) =
            (if dropdown_h_raw < 0 then
               (0, ''Opening too small for 2223mm door plus 36mm bottom liner and ''
                   @ str_int TRACKSET_TOLERANCE @ ''mm trackset tolerance.'')
             else if dropdown_h_raw > of_int MAX_DROPDOWN_LIMIT then
               (of_int MAX_DROPDOWN_LIMIT,
                ''Dropdown needed is '' @ str_int (py_int dropdown_h_raw) @ ''mm ''
                  @ en_dash @ '' exceeds max allowed '' @ str_int MAX_DROPDOWN_LIMIT
                  @ ''mm (including '' @ str_int TRACKSET_TOLERANCE
                  @ ''mm trackset tolerance).'')
             else (dropdown_h_raw, ''OK''));
          tol = fixed_tol doors;
          door_span = fixed_door_span row doors;
          side_thk = clamp_side_thk width door_span tol;
          net_width = fsub width (fmul 2 side_thk);
          span_diff = fsub door_span (fadd net_width (of_int tol));
          build_out_per_side = max (fsub side_thk (of_int SIDE_LINER_THICKNESS)) 0;
          issue_flag = (if height_status = ''OK'' then issue_ok else issue_check)
      in \<lparr> Door_Height_mm = py_round door_height,
           Door_Width_mm = py_round door_width,
           Doors_Used = doors,
           Dropdown_Height_mm = py_round dropdown_h,
           Recommended_Dropdown_Height_mm = None,
           Side_Liner_Thickness_mm = py_round1 side_thk,
           Required_Buildout_Per_Side_mm = py_round1 build_out_per_side,
           Net_Width_mm = py_round net_width,
           Door_Span_mm = py_round door_span,
           Overlap_Tolerance_mm = py_round (of_int tol),
           Span_Diff_mm = py_round1 span_diff,
           Bottom_Liner_Length_mm = py_round net_width,
           Side_Liner_Length_mm = py_round height,
           Dropdown_Length_mm = py_round net_width,
           Trackset_Tolerance_mm = TRACKSET_TOLERANCE,
           Height_Status = height_status,
           Issue = issue_flag \<rparr>)"

subsection \<open>Made-to-measure doors\<close>

text \<open>
  The height left for door and dropdown, and the dropdown that would let a door of at
  most \<open>MAX_DOOR_HEIGHT\<close> fill it.
\<close>

definition base_usable_height :: "rat \<Rightarrow> rat" where
  "base_usable_height height =
     fsub (fsub height (of_int BOTTOM_LINER_THICKNESS)) (of_int TRACKSET_TOLERANCE)"

definition ideal_dropdown :: "rat \<Rightarrow> rat" where
  "ideal_dropdown base =
     (let ideal_door_height = min (of_int MAX_DOOR_HEIGHT) base
      in max (fsub base ideal_door_height) 0)"

text \<open>
  The two branches on the top liner option. Each gives the dropdown, the final door
  height, the height status and the recommended dropdown.
\<close>

definition bespoke_dropdown :: "rat \<Rightarrow> rat \<times> rat \<times> string \<times> int option" where
  "bespoke_dropdown base =
     (let dropdown_h = min (ideal_dropdown base) (of_int MAX_DROPDOWN_LIMIT);
          raw_door_height = max (fsub base dropdown_h) 0;
          final_door_h = min raw_door_height (of_int MAX_DOOR_HEIGHT);
          height_status =
            (if ideal_dropdown base \<le> of_int MAX_DROPDOWN_LIMIT
                \<and> final_door_h \<le> of_int MAX_DOOR_HEIGHT then
               ''OK (bespoke dropdown auto-calculated for fit)''
             else if ideal_dropdown base > of_int MAX_DROPDOWN_LIMIT then
               ''Too tall for perfect fit with max '' @ str_int MAX_DROPDOWN_LIMIT
                 @ ''mm bespoke dropdown (ideal dropdown would be about ''
                 @ str_int (py_round (ideal_dropdown base)) @ ''mm). Door height capped at ''
                 @ str_int MAX_DOOR_HEIGHT @ ''mm.''
             else ''Check height / dropdown settings.'')
      in (dropdown_h, final_door_h, height_status, Some (py_round dropdown_h)))"

definition selected_dropdown :: "string \<Rightarrow> rat \<Rightarrow> rat \<times> rat \<times> string \<times> int option" where
  "selected_dropdown option base =
     (let selected = (case TOP_LINER_OPTIONS option of None \<Rightarrow> 108 | Some v \<Rightarrow> v);
          dropdown_h = min (rat_of_int selected) (of_int MAX_DROPDOWN_LIMIT);
          raw_door_height = max (fsub base dropdown_h) 0;
          dropdown_needed_for_max = fsub base (of_int MAX_DOOR_HEIGHT)
      in if raw_door_height \<le> of_int MAX_DOOR_HEIGHT then
           (dropdown_h, raw_door_height, ''OK'', None)
         else if dropdown_needed_for_max \<le> of_int MAX_DROPDOWN_LIMIT then
           (dropdown_h, of_int MAX_DOOR_HEIGHT,
            ''Too tall for selected dropdown '' @ en_dash @ '' need about ''
              @ str_int (py_round dropdown_needed_for_max) @ ''mm dropdown (includes ''
              @ str_int TRACKSET_TOLERANCE @ ''mm trackset tolerance).'', None)
         else
           (dropdown_h, of_int MAX_DOOR_HEIGHT,
            ''Too tall even at max '' @ str_int MAX_DROPDOWN_LIMIT @ ''mm dropdown (includes ''
              @ str_int TRACKSET_TOLERANCE @ ''mm trackset tolerance).'', None))"

definition made_to_measure_mode :: "row \<Rightarrow> rat \<Rightarrow> rat \<Rightarrow> int \<Rightarrow> result" where
  "made_to_measure_mode row width height doors =
     (let side_liner_thk = rat_of_int SIDE_LINER_THICKNESS;
          net_width = fsub width (2 * side_liner_thk);
          option = (case Top_Liner_Option row of None \<Rightarrow> ''108mm Dropdown'' | Some s \<Rightarrow> s);
          base = base_usable_height height;
          (dropdown_h, final_door_h, height_status, recommended_dropdown) =
            (if option = BESPOKE_DROPDOWN_LABEL then bespoke_dropdown base
             else selected_dropdown option base);
          overlap_mm = CUSTOM_DOOR_OVERLAP_MM;
          door_width =
            (if doors > 0 then
               fdiv (fadd net_width (py_float (of_int ((doors - 1) * overlap_mm))))
                 (py_float (of_int doors))
             else 0);
          door_span = fmul (py_float (of_int doors)) door_width;
          total_overlap = (doors - 1) * overlap_mm;
          issue_flag = (if prefix ''OK'' height_status then issue_ok else issue_check)
      in \<lparr> Door_Height_mm = py_round final_door_h,
           Door_Width_mm = py_round door_width,
           Doors_Used = doors,
           Dropdown_Height_mm = py_round dropdown_h,
           Recommended_Dropdown_Height_mm = recommended_dropdown,
           Side_Liner_Thickness_mm = py_round1 side_liner_thk,
           Required_Buildout_Per_Side_mm = 0,
           Net_Width_mm = py_round net_width,
           Door_Span_mm = py_round door_span,
           Overlap_Tolerance_mm = py_round (of_int total_overlap),
           Span_Diff_mm = 0,
           Bottom_Liner_Length_mm = py_round net_width,
           Side_Liner_Length_mm = py_round height,
           Dropdown_Length_mm = py_round net_width,
           Trackset_Tolerance_mm = TRACKSET_TOLERANCE,
           Height_Status = height_status,
           Issue = issue_flag \<rparr>)"

subsection \<open>The calculation for one row\<close>

text \<open>
  Width, height and door count are read with \<^verbatim>\<open>row[...]\<close>, converted with
  \<^verbatim>\<open>float\<close> and \<^verbatim>\<open>int\<close>, and raised to at least 1; the door system is read with \<^verbatim>\<open>row.get\<close>, and every value other than
  \<^verbatim>\<open>"Fixed 2223mm doors"\<close> takes the made-to-measure branch.
\<close>

definition calculate_for_row :: "row \<Rightarrow> error + result" where
  "calculate_for_row row =
     (case Width_mm row of
        None \<Rightarrow> Inl (KeyError ''Width_mm'')
      | Some w \<Rightarrow>
     (case Height_mm row of
        None \<Rightarrow> Inl (KeyError ''Height_mm'')
      | Some h \<Rightarrow>
     (case Doors row of
        None \<Rightarrow> Inl (KeyError ''Doors'')
      | Some d \<Rightarrow>
        (let width = max (py_float w) 1;
             height = max (py_float h) 1;
             doors = max (py_int d) 1;
             door_system =
               (case Door_System row of None \<Rightarrow> ''Made to measure doors'' | Some s \<Rightarrow> s)
         in if door_system = ''Fixed 2223mm doors'' then
              Inr (fixed_mode row width height doors)
            else Inr (made_to_measure_mode row width height doors)))))"

subsection \<open>The diagram\<close>










section \<open>Properties\<close>

subsection \<open>Rounding to integers\<close>

lemma py_round_of_int [simp]: "py_round (of_int n) = n"
  by (simp add: py_round_def)

lemma py_round_numeral [simp]: "py_round (numeral n) = numeral n"
  using py_round_of_int [of "numeral n"] by simp

lemma py_round_neg_numeral [simp]: "py_round (- numeral n) = - numeral n"
  using py_round_of_int [of "- numeral n"] by simp

lemma py_round_zero [simp]: "py_round 0 = 0"
  using py_round_of_int [of 0] by simp

lemma py_round_cases:
  "py_round x = \<lfloor>x\<rfloor> \<or> (py_round x = \<lfloor>x\<rfloor> + 1 \<and> of_int \<lfloor>x\<rfloor> < x)"
  unfolding py_round_def Let_def by (auto split: if_splits)

lemma py_round_lower: "of_int a \<le> x \<Longrightarrow> a \<le> py_round x"
proof -
  assume "of_int a \<le> x"
  then have "a \<le> \<lfloor>x\<rfloor>" by (simp add: le_floor_iff)
  with py_round_cases [of x] show ?thesis by auto
qed

lemma py_round_upper: "x \<le> of_int b \<Longrightarrow> py_round x \<le> b"
proof -
  assume h: "x \<le> of_int b"
  then have f: "\<lfloor>x\<rfloor> \<le> b" by (simp add: floor_le_iff)
  show ?thesis
  proof (cases "py_round x = \<lfloor>x\<rfloor>")
    case True
    with f show ?thesis by simp
  next
    case False
    with py_round_cases [of x] have r: "py_round x = \<lfloor>x\<rfloor> + 1" and lt: "of_int \<lfloor>x\<rfloor> < x"
      by auto
    from lt h have "rat_of_int \<lfloor>x\<rfloor> < of_int b" by simp
    then have "\<lfloor>x\<rfloor> < b" by simp
    with r show ?thesis by simp
  qed
qed

text \<open>Rounding moves a number by at most a half.\<close>

lemma py_round_error: "\<bar>of_int (py_round x) - x\<bar> \<le> 1 / 2"
proof -
  have f: "of_int \<lfloor>x\<rfloor> \<le> x" "x < of_int \<lfloor>x\<rfloor> + 1"
    by linarith+
  show ?thesis
    unfolding py_round_def Let_def using f by (auto split: if_splits)
qed

lemma py_round_small: "\<bar>x\<bar> < 1 / 2 \<Longrightarrow> py_round x = 0"
proof -
  assume a: "\<bar>x\<bar> < 1 / 2"
  have "\<bar>rat_of_int (py_round x) - x\<bar> \<le> 1 / 2" by (rule py_round_error)
  with a have "\<bar>rat_of_int (py_round x)\<bar> < 1" by linarith
  then show ?thesis by simp
qed

lemma py_int_of_int [simp]: "py_int (of_int n) = n"
  by (simp add: py_int_def)

lemma py_int_numeral [simp]: "py_int (numeral n) = numeral n"
  using py_int_of_int [of "numeral n"] by simp

lemma py_int_zero [simp]: "py_int 0 = 0"
  by (simp add: py_int_def)

lemma py_int_one [simp]: "py_int 1 = 1"
  by (simp add: py_int_def)

subsection \<open>Rounding to doubles\<close>

text \<open>The exponent is the one of the leading bit.\<close>

lemma float_exponent_bounds:
  assumes "x \<noteq> 0"
  shows "2 powi float_exponent x \<le> \<bar>x\<bar>" "\<bar>x\<bar> < 2 powi (float_exponent x + 1)"
proof -
  have "2 powi float_exponent x \<le> \<bar>x\<bar> \<and> \<bar>x\<bar> < 2 powi (float_exponent x + 1)"
  proof (cases "1 \<le> \<bar>x\<bar>")
    case True
    define m where "m = \<lfloor>\<bar>x\<bar>\<rfloor>"
    from True have m: "0 < m" by (simp add: m_def)
    then have b1: "1 \<le> bitlen m" by (auto simp: bitlen_alt_def)
    have e: "float_exponent x = bitlen m - 1"
      using True by (simp add: float_exponent_def m_def)
    from bitlen_bounds [OF m] have lo: "2 ^ nat (bitlen m - 1) \<le> m" and hi: "m < 2 ^ nat (bitlen m)"
      by simp_all
    have "rat_of_int (2 ^ nat (bitlen m - 1)) \<le> of_int m" using lo by (simp only: of_int_le_iff)
    then have "(2::rat) ^ nat (bitlen m - 1) \<le> of_int m" by simp
    moreover have "of_int m \<le> \<bar>x\<bar>" by (simp add: m_def)
    ultimately have l: "2 ^ nat (bitlen m - 1) \<le> \<bar>x\<bar>" by linarith
    from hi have "m + 1 \<le> 2 ^ nat (bitlen m)" by simp
    then have "rat_of_int (m + 1) \<le> of_int (2 ^ nat (bitlen m))" by (simp only: of_int_le_iff)
    then have "rat_of_int (m + 1) \<le> 2 ^ nat (bitlen m)" by simp
    moreover have "\<bar>x\<bar> < of_int (m + 1)" unfolding m_def by linarith
    ultimately have h: "\<bar>x\<bar> < 2 ^ nat (bitlen m)" by linarith
    from b1 have "(2::rat) powi (bitlen m - 1) = 2 ^ nat (bitlen m - 1)"
      and "(2::rat) powi (bitlen m - 1 + 1) = 2 ^ nat (bitlen m)"
      by (simp_all add: power_int_def)
    with l h show ?thesis unfolding e by simp
  next
    case False
    define y where "y = 1 / \<bar>x\<bar>"
    define m where "m = \<lceil>y\<rceil> - 1"
    from False assms have x: "0 < \<bar>x\<bar>" "\<bar>x\<bar> < 1" by simp_all
    then have y1: "1 < y" by (simp add: y_def)
    then have "1 < \<lceil>y\<rceil>" by (simp add: less_ceiling_iff)
    then have m: "0 < m" by (simp add: m_def)
    then have b1: "1 \<le> bitlen m" by (auto simp: bitlen_alt_def)
    have e: "float_exponent x = - bitlen m"
      using False by (simp add: float_exponent_def m_def y_def)
    from bitlen_bounds [OF m] have lo: "2 ^ nat (bitlen m - 1) \<le> m" and hi: "m < 2 ^ nat (bitlen m)"
      by simp_all
    have my: "of_int m < y" "y \<le> of_int (m + 1)"
      unfolding m_def by linarith+
    have "rat_of_int (2 ^ nat (bitlen m - 1)) \<le> of_int m" using lo by (simp only: of_int_le_iff)
    then have "(2::rat) ^ nat (bitlen m - 1) \<le> of_int m" by simp
    with my(1) have l: "2 ^ nat (bitlen m - 1) < y" by linarith
    from hi have "m + 1 \<le> 2 ^ nat (bitlen m)" by simp
    then have "rat_of_int (m + 1) \<le> of_int (2 ^ nat (bitlen m))" by (simp only: of_int_le_iff)
    then have "rat_of_int (m + 1) \<le> 2 ^ nat (bitlen m)" by simp
    with my(2) have h: "y \<le> 2 ^ nat (bitlen m)" by linarith
    have xy: "\<bar>x\<bar> = 1 / y" by (simp add: y_def)
    from h y1 have "1 / 2 ^ nat (bitlen m) \<le> 1 / y"
      by (intro divide_left_mono) simp_all
    then have A: "1 / 2 ^ nat (bitlen m) \<le> \<bar>x\<bar>" by (simp add: xy)
    from l y1 have "1 / y < 1 / 2 ^ nat (bitlen m - 1)"
      by (intro divide_strict_left_mono mult_pos_pos) simp_all
    then have B: "\<bar>x\<bar> < 1 / 2 ^ nat (bitlen m - 1)" by (simp add: xy)
    from b1 have "(2::rat) powi (- bitlen m) = 1 / 2 ^ nat (bitlen m)"
      by (simp add: power_int_def field_simps)
    moreover from b1 have "(2::rat) powi (- bitlen m + 1) = 1 / 2 ^ nat (bitlen m - 1)"
    proof -
      from b1 have "- bitlen m + 1 \<le> 0" by simp
      then have "(2::rat) powi (- bitlen m + 1) = inverse 2 ^ nat (- (- bitlen m + 1))"
        by (cases "- bitlen m + 1 = 0") (simp_all add: power_int_def)
      also have "nat (- (- bitlen m + 1)) = nat (bitlen m - 1)" by simp
      finally show ?thesis by (simp add: field_simps power_inverse)
    qed
    ultimately show ?thesis using A B unfolding e by simp
  qed
  then show "2 powi float_exponent x \<le> \<bar>x\<bar>" "\<bar>x\<bar> < 2 powi (float_exponent x + 1)"
    by simp_all
qed

text \<open>The exponent of a number below a power of two.\<close>

lemma float_exponent_upper:
  assumes "1 \<le> q" "\<bar>x\<bar> < 2 ^ q"
  shows "float_exponent x \<le> int q - 1"
proof (cases "1 \<le> \<bar>x\<bar>")
  case True
  from assms(2) have "rat_of_int \<lfloor>\<bar>x\<bar>\<rfloor> < 2 ^ q"
    by (meson floor_less_iff le_less_trans of_int_floor_le)
  then have "\<lfloor>\<bar>x\<bar>\<rfloor> < 2 ^ q"
    by (metis of_int_less_iff of_int_numeral of_int_power)
  then have "bitlen \<lfloor>\<bar>x\<bar>\<rfloor> \<le> int q"
    by (simp add: bitlen_le_iff_power)
  with True show ?thesis by (simp add: float_exponent_def)
next
  case False
  have "0 \<le> bitlen (\<lceil>1 / \<bar>x\<bar>\<rceil> - 1)" by (rule bitlen_nonneg)
  with False assms(1) show ?thesis by (simp add: float_exponent_def)
qed

text \<open>
  A number of at most 53 significant bits, the lowest of them at \<open>2 ^ (- j)\<close>, is a
  double: whole numbers and halves below \<open>2 ^ 53\<close> are.
\<close>

lemma py_float_exact:
  assumes "\<bar>m\<bar> < 2 ^ 53" "j \<le> 52"
  shows "py_float (of_int m / 2 ^ j) = of_int m / 2 ^ j"
proof -
  let ?x = "rat_of_int m / 2 ^ j"
  define k where "k = min (52 - float_exponent ?x) 1074"
  have "\<bar>?x\<bar> = \<bar>rat_of_int m\<bar> / 2 ^ j" by simp
  also have "\<dots> < 2 ^ 53 / 2 ^ j"
  proof -
    from assms(1) have "\<bar>rat_of_int m\<bar> < 2 ^ 53"
      by (metis of_int_abs of_int_less_iff of_int_numeral of_int_power)
    then show ?thesis by (simp add: divide_strict_right_mono)
  qed
  also have "\<dots> = 2 ^ (53 - j)"
    using assms(2) by (simp add: power_diff)
  finally have "\<bar>?x\<bar> < 2 ^ (53 - j)" .
  moreover from assms(2) have "1 \<le> 53 - j" by simp
  ultimately have "float_exponent ?x \<le> int (53 - j) - 1"
    by (rule float_exponent_upper [rotated])
  with assms(2) have kj: "int j \<le> k" by (simp add: k_def)
  then obtain i where i: "nat k = j + i"
    by (metis le_add_diff_inverse nat_int nat_mono)
  have "?x * 2 ^ nat k = of_int (m * 2 ^ i)"
    by (simp add: i power_add)
  then have "py_round (?x * 2 ^ nat k) = m * 2 ^ i"
    by (simp only: py_round_of_int)
  moreover have "rat_of_int (m * 2 ^ i) / 2 ^ nat k = ?x"
    by (simp add: i power_add)
  ultimately show ?thesis
    using kj unfolding py_float_def Let_def k_def [symmetric] by simp
qed

lemma py_float_of_int: "\<bar>m\<bar> < 2 ^ 53 \<Longrightarrow> py_float (of_int m) = of_int m"
  using py_float_exact [of m 0] by simp

lemma py_float_half: "\<bar>m\<bar> < 2 ^ 53 \<Longrightarrow> py_float (of_int m / 2) = of_int m / 2"
  using py_float_exact [of m 1] by simp

lemma py_float_zero [simp]: "py_float 0 = 0"
  using py_float_of_int [of 0] by simp

lemma py_float_one [simp]: "py_float 1 = 1"
  using py_float_of_int [of 1] by simp

lemma py_float_numeral:
  "(numeral n :: int) < 2 ^ 53 \<Longrightarrow> py_float (numeral n) = numeral n"
  using py_float_of_int [of "numeral n"] by simp

text \<open>Rounding to a double keeps the sign.\<close>

lemma py_float_nonneg: "0 \<le> x \<Longrightarrow> 0 \<le> py_float x"
proof -
  assume x: "0 \<le> x"
  have "0 \<le> py_round (x * 2 ^ n)" for n
    by (rule py_round_lower) (use x in simp)
  moreover have "0 \<le> py_round (x / 2 ^ n)" for n
    by (rule py_round_lower) (use x in simp)
  ultimately show ?thesis
    by (simp add: py_float_def Let_def)
qed

text \<open>The error of rounding a number below \<open>2 ^ q\<close> to a double.\<close>

lemma py_float_error:
  assumes "1 \<le> q" "q \<le> 53" "\<bar>x\<bar> < 2 ^ q"
  shows "\<bar>py_float x - x\<bar> \<le> 1 / 2 ^ (54 - q)"
proof -
  define k where "k = min (52 - float_exponent x) 1074"
  from assms(1,3) have "float_exponent x \<le> int q - 1"
    by (rule float_exponent_upper)
  with assms(2) have kq: "int (53 - q) \<le> k" by (simp add: k_def)
  then have k0: "0 \<le> k" by linarith
  from kq obtain i where i: "nat k = (53 - q) + i"
    by (metis le_add_diff_inverse nat_int nat_mono)
  let ?y = "x * 2 ^ nat k"
  have fl: "py_float x = of_int (py_round ?y) / 2 ^ nat k"
    using k0 unfolding py_float_def Let_def k_def [symmetric] by simp
  have "py_float x - x = (of_int (py_round ?y) - ?y) / 2 ^ nat k"
    unfolding fl by (simp add: diff_divide_distrib)
  then have "\<bar>py_float x - x\<bar> = \<bar>of_int (py_round ?y) - ?y\<bar> / 2 ^ nat k"
    by (simp add: abs_divide)
  also have "\<dots> \<le> (1 / 2) / 2 ^ nat k"
    by (rule divide_right_mono [OF py_round_error]) simp
  also have "\<dots> = 1 / 2 ^ (54 - q + i)"
    using assms(2) unfolding i
    by (simp add: power_add Suc_diff_le flip: power_Suc)
  also have "\<dots> \<le> 1 / 2 ^ (54 - q)"
    by (simp add: power_add field_simps)
  finally show ?thesis .
qed

lemma py_float_error_42: "\<bar>x\<bar> < 4398046511104 \<Longrightarrow> \<bar>py_float x - x\<bar> \<le> 1 / 4096"
  using py_float_error [of 42 x] by simp

lemma py_float_error_1: "\<bar>x\<bar> < 2 \<Longrightarrow> \<bar>py_float x - x\<bar> \<le> 1 / 9007199254740992"
  using py_float_error [of 1 x] by simp

text \<open>Two doubles that are not whole: a tenth, and a width of 762 in an opening of 2200.\<close>

lemma py_float_tenth: "py_float (1 / 10) = 3602879701896397 / 2 ^ 55"
  by code_simp

lemma py_float_door: "fdiv 762 2200 = 6239532574647851 / 2 ^ 54"
  by code_simp

text \<open>Rounding to one decimal.\<close>

lemma py_round1_nonneg: "0 \<le> x \<Longrightarrow> 0 \<le> py_round1 x"
proof -
  assume "0 \<le> x"
  then have "rat_of_int 0 \<le> x * 10" by simp
  then have "0 \<le> py_round (x * 10)" by (rule py_round_lower)
  then show ?thesis
    unfolding py_round1_def by (intro py_float_nonneg) simp
qed

lemma py_round1_zero [simp]: "py_round1 0 = 0"
  by (simp add: py_round1_def)

lemma py_round1_half: "\<bar>k\<bar> < 2 ^ 53 \<Longrightarrow> py_round1 (of_int k / 2) = of_int k / 2"
proof -
  assume k: "\<bar>k\<bar> < 2 ^ 53"
  have e: "rat_of_int k / 2 * 10 = of_int (5 * k)" by simp
  have "rat_of_int (5 * k) / 10 = of_int k / 2" by simp
  then show ?thesis
    unfolding py_round1_def e py_round_of_int using py_float_half [OF k] by simp
qed

lemma py_round1_small: "\<bar>x\<bar> < 1 / 20 \<Longrightarrow> py_round1 x = 0"
proof -
  assume "\<bar>x\<bar> < 1 / 20"
  then have "\<bar>x * 10\<bar> < 1 / 2" by (simp add: abs_mult)
  then have "py_round (x * 10) = 0" by (rule py_round_small)
  then show ?thesis by (simp add: py_round1_def)
qed

subsection \<open>The two branches of the calculation\<close>

text \<open>The stock door widths are whole millimetres.\<close>

lemma fixed_door_width_cases:
  "fixed_door_width row = 610 \<or> fixed_door_width row = 762 \<or> fixed_door_width row = 914"
  by (auto simp: fixed_door_width_def FIXED_DOOR_WIDTH_OPTIONS_def Let_def)

lemma fixed_tol_cases: "fixed_tol doors = 75 \<or> fixed_tol doors = 150"
  by (auto simp: fixed_tol_def OVERLAP_TOLERANCES_def DEFAULT_FIXED_OVERLAP_TOLERANCE_def)

lemma fixed_door_width_whole:
  "\<exists>i. fixed_door_width row = of_int i \<and> 0 < i \<and> i < 1024"
proof -
  have "fixed_door_width row = of_int 610 \<or> fixed_door_width row = of_int 762
        \<or> fixed_door_width row = of_int 914"
    using fixed_door_width_cases [of row] by simp
  then show ?thesis by fastforce
qed

text \<open>The span of fewer than \<open>2 ^ 20\<close> stock doors is exact.\<close>

lemma fixed_door_span_whole:
  assumes "1 \<le> doors" "doors < 2 ^ 20"
  shows "\<exists>s. fixed_door_span row doors = of_int s \<and> 0 < s \<and> s < 2 ^ 30"
proof -
  obtain i where i: "fixed_door_width row = of_int i" "0 < i" "i < 1024"
    using fixed_door_width_whole by blast
  from assms have "\<bar>doors\<bar> < 2 ^ 53" by simp
  then have d: "py_float (of_int doors) = of_int doors" by (rule py_float_of_int)
  from assms i(2,3) have pos: "0 < doors * i" by simp
  have "doors * i < 2 ^ 20 * 1024"
    using assms i(2,3) by (intro mult_strict_mono) simp_all
  then have lt: "doors * i < 2 ^ 30" by simp
  with pos have "\<bar>doors * i\<bar> < 2 ^ 53" by simp
  then have "py_float (of_int (doors * i)) = of_int (doors * i)" by (rule py_float_of_int)
  then have "fixed_door_span row doors = of_int (doors * i)"
    by (simp add: fixed_door_span_def fmul_def d i(1))
  with pos lt show ?thesis by blast
qed

lemma calculate_for_row_cases:
  assumes "calculate_for_row row = Inr r"
  obtains w h d where "Width_mm row = Some w" "Height_mm row = Some h" "Doors row = Some d"
    and "r = fixed_mode row (max (py_float w) 1) (max (py_float h) 1) (max (py_int d) 1)
         \<or> r = made_to_measure_mode row (max (py_float w) 1) (max (py_float h) 1)
                 (max (py_int d) 1)"
  using assms
  by (auto simp: calculate_for_row_def Let_def split: option.splits if_splits)

lemma calculate_fixed:
  assumes "Width_mm row = Some w" "Height_mm row = Some h" "Doors row = Some d"
    and "Door_System row = Some ''Fixed 2223mm doors''"
  shows "calculate_for_row row =
           Inr (fixed_mode row (max (py_float w) 1) (max (py_float h) 1) (max (py_int d) 1))"
  using assms by (simp add: calculate_for_row_def Let_def)

lemma calculate_made_to_measure:
  assumes "Width_mm row = Some w" "Height_mm row = Some h" "Doors row = Some d"
    and "Door_System row \<noteq> Some ''Fixed 2223mm doors''"
  shows "calculate_for_row row =
           Inr (made_to_measure_mode row (max (py_float w) 1) (max (py_float h) 1)
                  (max (py_int d) 1))"
  using assms by (auto simp: calculate_for_row_def Let_def split: option.splits)

text \<open>The fields of a result, as functions of the clamped inputs.\<close>

lemma fixed_mode_fields:
  "Door_Height_mm (fixed_mode row width height doors) = 2223"
  "Doors_Used (fixed_mode row width height doors) = doors"
  "Side_Liner_Thickness_mm (fixed_mode row width height doors) =
     py_round1 (clamp_side_thk width (fixed_door_span row doors) (fixed_tol doors))"
  "Net_Width_mm (fixed_mode row width height doors) =
     py_round (fsub width
       (fmul 2 (clamp_side_thk width (fixed_door_span row doors) (fixed_tol doors))))"
  "Span_Diff_mm (fixed_mode row width height doors) =
     py_round1 (fsub (fixed_door_span row doors)
       (fadd (fsub width
                (fmul 2 (clamp_side_thk width (fixed_door_span row doors) (fixed_tol doors))))
          (of_int (fixed_tol doors))))"
  "Overlap_Tolerance_mm (fixed_mode row width height doors) = fixed_tol doors"
  "Side_Liner_Length_mm (fixed_mode row width height doors) = py_round height"
  by (simp_all add: fixed_mode_def Let_def case_prod_beta FIXED_DOOR_HEIGHT_def)

lemma mtm_fields:
  "Dropdown_Height_mm (made_to_measure_mode row width height doors) =
     py_round (fst (if (case Top_Liner_Option row of None \<Rightarrow> ''108mm Dropdown'' | Some s \<Rightarrow> s)
                        = BESPOKE_DROPDOWN_LABEL
                    then bespoke_dropdown (base_usable_height height)
                    else selected_dropdown
                           (case Top_Liner_Option row of None \<Rightarrow> ''108mm Dropdown'' | Some s \<Rightarrow> s)
                           (base_usable_height height)))"
  "Door_Height_mm (made_to_measure_mode row width height doors) =
     py_round (fst (snd (if (case Top_Liner_Option row of None \<Rightarrow> ''108mm Dropdown'' | Some s \<Rightarrow> s)
                        = BESPOKE_DROPDOWN_LABEL
                    then bespoke_dropdown (base_usable_height height)
                    else selected_dropdown
                           (case Top_Liner_Option row of None \<Rightarrow> ''108mm Dropdown'' | Some s \<Rightarrow> s)
                           (base_usable_height height))))"
  "Height_Status (made_to_measure_mode row width height doors) =
     fst (snd (snd (if (case Top_Liner_Option row of None \<Rightarrow> ''108mm Dropdown'' | Some s \<Rightarrow> s)
                        = BESPOKE_DROPDOWN_LABEL
                    then bespoke_dropdown (base_usable_height height)
                    else selected_dropdown
                           (case Top_Liner_Option row of None \<Rightarrow> ''108mm Dropdown'' | Some s \<Rightarrow> s)
                           (base_usable_height height))))"
  "Side_Liner_Thickness_mm (made_to_measure_mode row width height doors) = 18"
  "Net_Width_mm (made_to_measure_mode row width height doors) = py_round (fsub width 36)"
  "Doors_Used (made_to_measure_mode row width height doors) = doors"
  "Side_Liner_Length_mm (made_to_measure_mode row width height doors) = py_round height"
  by (simp_all add: made_to_measure_mode_def Let_def case_prod_beta SIDE_LINER_THICKNESS_def
      py_round1_def py_float_numeral)

text \<open>Scenario A of the specification: the default row, made to measure.\<close>

lemma scenario_A_made_to_measure:
  "calculate_for_row DEFAULT_DATA
   = Inr \<lparr> Door_Height_mm = 2402, Door_Width_mm = 738, Doors_Used = 3,
           Dropdown_Height_mm = 108, Recommended_Dropdown_Height_mm = None,
           Side_Liner_Thickness_mm = 18, Required_Buildout_Per_Side_mm = 0,
           Net_Width_mm = 2164, Door_Span_mm = 2214, Overlap_Tolerance_mm = 50,
           Span_Diff_mm = 0, Bottom_Liner_Length_mm = 2164, Side_Liner_Length_mm = 2600,
           Dropdown_Length_mm = 2164, Trackset_Tolerance_mm = 54,
           Height_Status = ''OK'', Issue = issue_ok \<rparr>"
  by code_simp

subsection \<open>Clamping of width, height and door count\<close>




subsection \<open>The door system\<close>

lemma fixed_door_width_update [simp]:
  "fixed_door_width (row\<lparr>Door_System := e\<rparr>) = fixed_door_width row"
  by (simp add: fixed_door_width_def)

lemma made_to_measure_mode_row_update [simp]:
  "made_to_measure_mode (row\<lparr>Door_System := e\<rparr>) = made_to_measure_mode row"
  by (simp add: made_to_measure_mode_def fun_eq_iff)

text \<open>
  Claim C2, as stated, fails: a door system that is neither of the two known ones does
  not make the calculation fail. The default row with the door system
  \<^verbatim>\<open>Hinged doors\<close> gets the made-to-measure result of scenario A.
\<close>

theorem C2_counterexample:
  "calculate_for_row (DEFAULT_DATA\<lparr>Door_System := Some ''Hinged doors''\<rparr>)
   = Inr \<lparr> Door_Height_mm = 2402, Door_Width_mm = 738, Doors_Used = 3,
           Dropdown_Height_mm = 108, Recommended_Dropdown_Height_mm = None,
           Side_Liner_Thickness_mm = 18, Required_Buildout_Per_Side_mm = 0,
           Net_Width_mm = 2164, Door_Span_mm = 2214, Overlap_Tolerance_mm = 50,
           Span_Diff_mm = 0, Bottom_Liner_Length_mm = 2164, Side_Liner_Length_mm = 2600,
           Dropdown_Length_mm = 2164, Trackset_Tolerance_mm = 54,
           Height_Status = ''OK'', Issue = issue_ok \<rparr>"
  by code_simp

text \<open>
  Claim C2, amended. For every row with a width, a height and a door count whose door
  system is not \<^verbatim>\<open>Fixed 2223mm doors\<close> (an unknown value or none at all), the
  calculation returns what it returns for made-to-measure doors: a result, not an error.
\<close>

theorem other_door_system_is_made_to_measure:
  assumes "Width_mm row = Some w" "Height_mm row = Some h" "Doors row = Some d"
    and "Door_System row \<noteq> Some ''Fixed 2223mm doors''"
  shows "calculate_for_row row =
           calculate_for_row (row\<lparr>Door_System := Some ''Made to measure doors''\<rparr>)
         \<and> (\<exists>r. calculate_for_row row = Inr r)"
  using assms by (auto simp: calculate_for_row_def Let_def split: option.splits)

theorem other_door_system_is_made_to_measure_witness:
  "Door_System (DEFAULT_DATA\<lparr>Door_System := Some ''Fixed 2000mm doors''\<rparr>)
     \<noteq> Some ''Fixed 2223mm doors''
   \<and> calculate_for_row (DEFAULT_DATA\<lparr>Door_System := Some ''Fixed 2000mm doors''\<rparr>)
     = calculate_for_row DEFAULT_DATA
   \<and> (\<exists>r. calculate_for_row (DEFAULT_DATA\<lparr>Door_System := Some ''Fixed 2000mm doors''\<rparr>)
        = Inr r)"
proof -
  let ?row = "DEFAULT_DATA\<lparr>Door_System := Some ''Fixed 2000mm doors''\<rparr>"
  have present: "Width_mm ?row = Some 2200" "Height_mm ?row = Some 2600" "Doors ?row = Some 3"
    and other: "Door_System ?row \<noteq> Some ''Fixed 2223mm doors''"
    by (simp_all add: DEFAULT_DATA_def)
  have made_to_measure: "?row\<lparr>Door_System := Some ''Made to measure doors''\<rparr> = DEFAULT_DATA"
    by (simp add: DEFAULT_DATA_def)
  from other_door_system_is_made_to_measure [OF present other] other show ?thesis
    unfolding made_to_measure by blast
qed

subsection \<open>The fixed door system\<close>

text \<open>
  Claim C3, as stated, fails for a very wide opening, where the float operations round
  to more than a millimetre: at a width of \<open>10 ^ 17\<close> mm with three doors of 762mm the
  raw side liner thickness is not negative, so it is not clamped, and the result has the
  net width 2144 and the span difference -8.
\<close>

theorem C3_counterexample:
  "0 \<le> side_thk_raw (max (py_float 100000000000000000) 1)
         (fixed_door_span (DEFAULT_DATA\<lparr>Width_mm := Some 100000000000000000,
            Door_System := Some ''Fixed 2223mm doors''\<rparr>) (max (py_int 3) 1))
         (fixed_tol (max (py_int 3) 1))
   \<and> map_sum id Span_Diff_mm
       (calculate_for_row (DEFAULT_DATA\<lparr>Width_mm := Some 100000000000000000,
          Door_System := Some ''Fixed 2223mm doors''\<rparr>)) = Inr (- 8)
   \<and> map_sum id Net_Width_mm
       (calculate_for_row (DEFAULT_DATA\<lparr>Width_mm := Some 100000000000000000,
          Door_System := Some ''Fixed 2223mm doors''\<rparr>)) = Inr 2144"
  by code_simp

text \<open>
  The span difference before it is rounded to one decimal: each of the six float
  operations on the way is off by at most \<open>2 ^ (- 12)\<close> for a width below \<open>2 ^ 40\<close>.
\<close>

lemma span_diff_unclamped:
  assumes W: "1 \<le> W" "W < 1099511627777"
    and S: "0 < S" "S < 1073741824"
    and T: "T = 75 \<or> T = 150"
    and raw: "0 \<le> side_thk_raw W S T"
  shows "py_round1 (fsub S (fadd (fsub W (fmul 2 (clamp_side_thk W S T))) (of_int T))) = 0"
proof -
  define a where "a = fsub W S"
  define b where "b = fadd a (of_int T)"
  define s where "s = fdiv b 2"
  define c where "c = fmul 2 s"
  define net where "net = fsub W c"
  define g where "g = fadd net (of_int T)"
  define sd where "sd = fsub S g"
  from T have Tb: "0 \<le> rat_of_int T" "rat_of_int T \<le> 150" by auto
  have "\<bar>a - (W - S)\<bar> \<le> 1 / 4096"
    unfolding a_def fsub_def using W S by (intro py_float_error_42) linarith
  then have a: "a - (W - S) \<le> 1 / 4096" "- (1 / 4096) \<le> a - (W - S)"
    by linarith+
  have "\<bar>b - (a + of_int T)\<bar> \<le> 1 / 4096"
    unfolding b_def fadd_def using W S Tb a by (intro py_float_error_42) linarith
  then have b: "b - (a + of_int T) \<le> 1 / 4096" "- (1 / 4096) \<le> b - (a + of_int T)"
    by linarith+
  have "\<bar>s - b / 2\<bar> \<le> 1 / 4096"
    unfolding s_def fdiv_def using W S Tb a b by (intro py_float_error_42) linarith
  then have s: "s - b / 2 \<le> 1 / 4096" "- (1 / 4096) \<le> s - b / 2"
    by linarith+
  have "\<bar>c - 2 * s\<bar> \<le> 1 / 4096"
    unfolding c_def fmul_def using W S Tb a b s by (intro py_float_error_42) linarith
  then have c: "c - 2 * s \<le> 1 / 4096" "- (1 / 4096) \<le> c - 2 * s"
    by linarith+
  have "\<bar>net - (W - c)\<bar> \<le> 1 / 4096"
    unfolding net_def fsub_def using W S Tb a b s c by (intro py_float_error_42) linarith
  then have net: "net - (W - c) \<le> 1 / 4096" "- (1 / 4096) \<le> net - (W - c)"
    by linarith+
  have "\<bar>g - (net + of_int T)\<bar> \<le> 1 / 4096"
    unfolding g_def fadd_def using W S Tb a b s c net by (intro py_float_error_42) linarith
  then have g: "g - (net + of_int T) \<le> 1 / 4096" "- (1 / 4096) \<le> g - (net + of_int T)"
    by linarith+
  have "\<bar>sd - (S - g)\<bar> \<le> 1 / 9007199254740992"
    unfolding sd_def fsub_def using a b s c net g by (intro py_float_error_1) linarith
  then have "\<bar>sd\<bar> < 1 / 20"
    using a b s c net g by linarith
  then have "py_round1 sd = 0" by (rule py_round1_small)
  moreover from raw have "clamp_side_thk W S T = s"
    by (simp add: clamp_side_thk_def side_thk_raw_def s_def b_def a_def)
  ultimately show ?thesis
    by (simp add: sd_def g_def net_def c_def)
qed

text \<open>The width used: the float of the width of the row, or 1.\<close>

lemma clamped_width_bounds:
  assumes "\<bar>w\<bar> < 2 ^ 40"
  shows "1 \<le> max (py_float w) 1" "max (py_float w) 1 < 1099511627777"
proof -
  have "\<bar>py_float w - w\<bar> \<le> 1 / 2 ^ (54 - 40)"
    using assms by (intro py_float_error) simp_all
  then have "\<bar>py_float w - w\<bar> \<le> 1" by simp
  moreover from assms have "\<bar>w\<bar> < 1099511627776" by simp
  ultimately have "py_float w < 1099511627777" by linarith
  then show "max (py_float w) 1 < 1099511627777" by simp
qed simp

text \<open>
  Claim C3, amended. With fixed doors, the door height of the result is 2223 and its
  side liner thickness is not negative, for every row; and for every row of a width
  below \<open>2 ^ 40\<close> mm and a door count below \<open>2 ^ 20\<close>, when the raw side liner thickness
  \<open>(width - door_span + tolerance) / 2\<close> is not negative (so not clamped), the span
  difference of the result is 0.
\<close>

theorem fixed_mode_invariants:
  assumes "Width_mm row = Some w" "Height_mm row = Some h" "Doors row = Some d"
    and "Door_System row = Some ''Fixed 2223mm doors''"
  shows "\<exists>r. calculate_for_row row = Inr r
           \<and> Door_Height_mm r = 2223
           \<and> 0 \<le> Side_Liner_Thickness_mm r
           \<and> (\<bar>w\<bar> < 2 ^ 40 \<and> py_int d < 2 ^ 20
                \<and> 0 \<le> side_thk_raw (max (py_float w) 1)
                          (fixed_door_span row (max (py_int d) 1))
                          (fixed_tol (max (py_int d) 1))
              \<longrightarrow> Span_Diff_mm r = 0)"
proof -
  let ?W = "max (py_float w) 1"
  let ?doors = "max (py_int d) 1"
  let ?r = "fixed_mode row ?W (max (py_float h) 1) ?doors"
  have "calculate_for_row row = Inr ?r"
    using assms by (rule calculate_fixed)
  moreover have "Door_Height_mm ?r = 2223"
    by (simp add: fixed_mode_fields)
  moreover have "0 \<le> Side_Liner_Thickness_mm ?r"
    unfolding fixed_mode_fields
    by (rule py_round1_nonneg) (simp add: clamp_side_thk_def)
  moreover have "Span_Diff_mm ?r = 0"
    if bounds: "\<bar>w\<bar> < 2 ^ 40" "py_int d < 2 ^ 20"
      and raw: "0 \<le> side_thk_raw ?W (fixed_door_span row ?doors) (fixed_tol ?doors)"
  proof -
    from bounds(2) have "1 \<le> ?doors" "?doors < 2 ^ 20" by simp_all
    then obtain s where s: "fixed_door_span row ?doors = of_int s" "0 < s" "s < 2 ^ 30"
      using fixed_door_span_whole by blast
    from s(2,3) have sb: "0 < rat_of_int s" "rat_of_int s < 1073741824" by simp_all
    show ?thesis
      unfolding fixed_mode_fields
      using span_diff_unclamped
        [OF clamped_width_bounds [OF bounds(1)] sb fixed_tol_cases [of ?doors]] raw
      unfolding s(1) by blast
  qed
  ultimately show ?thesis by blast
qed

theorem fixed_mode_invariants_witness:
  "\<bar>2200 :: rat\<bar> < 2 ^ 40 \<and> py_int 3 < 2 ^ 20
   \<and> 0 \<le> side_thk_raw (max (py_float 2200) 1)
          (fixed_door_span (DEFAULT_DATA\<lparr>Door_System := Some ''Fixed 2223mm doors''\<rparr>)
             (max (py_int 3) 1))
          (fixed_tol (max (py_int 3) 1))
   \<and> (\<exists>r. calculate_for_row (DEFAULT_DATA\<lparr>Door_System := Some ''Fixed 2223mm doors''\<rparr>)
          = Inr r
        \<and> Door_Height_mm r = 2223 \<and> 0 \<le> Side_Liner_Thickness_mm r \<and> Span_Diff_mm r = 0)"
proof -
  let ?row = "DEFAULT_DATA\<lparr>Door_System := Some ''Fixed 2223mm doors''\<rparr>"
  have present: "Width_mm ?row = Some 2200" "Height_mm ?row = Some 2600" "Doors ?row = Some 3"
    and fixed: "Door_System ?row = Some ''Fixed 2223mm doors''"
    by (simp_all add: DEFAULT_DATA_def)
  have raw: "0 \<le> side_thk_raw (max (py_float 2200) 1) (fixed_door_span ?row (max (py_int 3) 1))
               (fixed_tol (max (py_int 3) 1))"
    by code_simp
  have bounds: "\<bar>2200 :: rat\<bar> < 2 ^ 40" "py_int 3 < 2 ^ 20"
    by simp_all
  from fixed_mode_invariants [OF present fixed] raw bounds show ?thesis
    by blast
qed

subsection \<open>Net width\<close>

text \<open>
  Claim C4, as stated, fails: the reported net width is rounded to whole millimetres.
  The default row made 2200.5mm wide has side liners of 18mm and a reported net width
  of 2164mm, while 2200.5 - 2 * 18 = 2164.5.
\<close>

theorem C4_counterexample:
  "map_sum id Net_Width_mm
     (calculate_for_row (DEFAULT_DATA\<lparr>Width_mm := Some (4401 / 2)\<rparr>)) = Inr 2164
   \<and> map_sum id Side_Liner_Thickness_mm
     (calculate_for_row (DEFAULT_DATA\<lparr>Width_mm := Some (4401 / 2)\<rparr>)) = Inr 18
   \<and> rat_of_int 2164 \<noteq> 4401 / 2 - 2 * 18"
  by code_simp

lemma fixed_net_width_exact:
  assumes n: "1 \<le> n" "n < 2 ^ 50" and doors: "1 \<le> doors" "doors < 2 ^ 20"
  shows "of_int (Net_Width_mm (fixed_mode row (of_int n) height doors)) =
     rat_of_int n - 2 * Side_Liner_Thickness_mm (fixed_mode row (of_int n) height doors)"
proof -
  obtain s where s: "fixed_door_span row doors = of_int s" "0 < s" "s < 2 ^ 30"
    using fixed_door_span_whole [OF doors] by blast
  define T where "T = fixed_tol doors"
  have T: "T = 75 \<or> T = 150" unfolding T_def by (rule fixed_tol_cases)
  define k where "k = n - s + T"
  from n s(2,3) T have kb: "\<bar>k\<bar> < 2 ^ 53" "\<bar>n - s\<bar> < 2 ^ 53" "\<bar>n - k\<bar> < 2 ^ 53"
    and nb: "\<bar>n\<bar> < 2 ^ 53"
    unfolding k_def by auto
  have "fsub (of_int n) (of_int s) = py_float (of_int (n - s))"
    by (simp add: fsub_def)
  then have a: "fsub (of_int n) (of_int s) = of_int (n - s)"
    using py_float_of_int [OF kb(2)] by simp
  have "fadd (of_int (n - s)) (of_int T) = py_float (of_int k)"
    by (simp add: fadd_def k_def)
  then have b: "fadd (of_int (n - s)) (of_int T) = of_int k"
    using py_float_of_int [OF kb(1)] by simp
  have raw: "side_thk_raw (of_int n) (of_int s) T = of_int k / 2"
    unfolding side_thk_raw_def a b fdiv_def using py_float_half [OF kb(1)] by simp
  show ?thesis
  proof (cases "k < 0")
    case True
    then have "clamp_side_thk (of_int n) (of_int s) T = 0"
      by (simp add: clamp_side_thk_def raw)
    then show ?thesis
      unfolding fixed_mode_fields s(1) T_def [symmetric]
      using py_float_of_int [OF nb] by (simp add: fsub_def fmul_def)
  next
    case False
    then have cl: "clamp_side_thk (of_int n) (of_int s) T = of_int k / 2"
      by (simp add: clamp_side_thk_def raw)
    have "fmul 2 (rat_of_int k / 2) = py_float (of_int k)"
      by (simp add: fmul_def)
    then have c: "fmul 2 (rat_of_int k / 2) = of_int k"
      using py_float_of_int [OF kb(1)] by simp
    have "fsub (of_int n) (of_int k) = py_float (of_int (n - k))"
      by (simp add: fsub_def)
    then have net: "fsub (of_int n) (of_int k) = of_int (n - k)"
      using py_float_of_int [OF kb(3)] by simp
    show ?thesis
      unfolding fixed_mode_fields s(1) T_def [symmetric] cl c net
        py_round1_half [OF kb(1)] py_round_of_int
      by simp
  qed
qed

lemma mtm_net_width_exact:
  assumes n: "1 \<le> n" "n < 2 ^ 50"
  shows "of_int (Net_Width_mm (made_to_measure_mode row (of_int n) height doors)) =
     rat_of_int n - 2 * Side_Liner_Thickness_mm (made_to_measure_mode row (of_int n) height doors)"
proof -
  from n have "\<bar>n - 36\<bar> < 2 ^ 53" by auto
  then have "py_float (of_int (n - 36)) = of_int (n - 36)" by (rule py_float_of_int)
  moreover have "fsub (of_int n) 36 = py_float (of_int (n - 36))"
    by (simp add: fsub_def)
  ultimately have "fsub (of_int n) 36 = of_int (n - 36)" by simp
  then show ?thesis
    unfolding mtm_fields by (simp only: py_round_of_int)
qed

text \<open>
  Claim C4, amended. For every row whose width is a whole number of millimetres from 1
  to below \<open>2 ^ 50\<close> and whose door count is below \<open>2 ^ 20\<close> (so for every valid row
  of whole width), in both branches the reported net width is the width minus twice the
  reported side liner thickness, exactly.
\<close>

theorem net_width_exact_for_whole_width:
  assumes "Width_mm row = Some (of_int n)" "1 \<le> n" "n < 2 ^ 50"
    and "Height_mm row = Some h" "Doors row = Some d" "py_int d < 2 ^ 20"
  shows "\<exists>r. calculate_for_row row = Inr r
           \<and> of_int (Net_Width_mm r) = rat_of_int n - 2 * Side_Liner_Thickness_mm r"
proof -
  from assms(2,3) have "\<bar>n\<bar> < 2 ^ 53" by auto
  then have "py_float (of_int n) = of_int n" by (rule py_float_of_int)
  with assms(2) have m: "max (py_float (rat_of_int n)) 1 = of_int n" by (simp add: max_def)
  from assms(6) have doors: "1 \<le> max (py_int d) 1" "max (py_int d) 1 < 2 ^ 20" by simp_all
  show ?thesis
  proof (cases "Door_System row = Some ''Fixed 2223mm doors''")
    case True
    have "calculate_for_row row =
        Inr (fixed_mode row (of_int n) (max (py_float h) 1) (max (py_int d) 1))"
      using calculate_fixed [OF assms(1,4,5) True] unfolding m .
    then show ?thesis
      using fixed_net_width_exact [OF assms(2,3) doors] by blast
  next
    case False
    have "calculate_for_row row =
        Inr (made_to_measure_mode row (of_int n) (max (py_float h) 1) (max (py_int d) 1))"
      using calculate_made_to_measure [OF assms(1,4,5) False] unfolding m .
    then show ?thesis
      using mtm_net_width_exact [OF assms(2,3)] by blast
  qed
qed

theorem net_width_exact_for_whole_width_witness:
  "(1 :: int) \<le> 2200 \<and> (2200 :: int) < 2 ^ 50 \<and> py_int 3 < 2 ^ 20
   \<and> (\<exists>r. calculate_for_row (DEFAULT_DATA\<lparr>Door_System := Some ''Fixed 2223mm doors''\<rparr>)
          = Inr r
        \<and> of_int (Net_Width_mm r) = rat_of_int 2200 - 2 * Side_Liner_Thickness_mm r)"
proof -
  let ?row = "DEFAULT_DATA\<lparr>Door_System := Some ''Fixed 2223mm doors''\<rparr>"
  have present: "Width_mm ?row = Some (of_int 2200)" "Height_mm ?row = Some 2600"
    "Doors ?row = Some 3"
    by (simp_all add: DEFAULT_DATA_def)
  have bounds: "(1 :: int) \<le> 2200" "(2200 :: int) < 2 ^ 50" "py_int 3 < 2 ^ 20"
    by simp_all
  from net_width_exact_for_whole_width
    [OF present(1) bounds(1,2) present(2,3) bounds(3)] bounds
  show ?thesis by blast
qed

subsection \<open>Made-to-measure doors\<close>

lemma ideal_dropdown_nonneg: "0 \<le> ideal_dropdown base"
  by (simp add: ideal_dropdown_def Let_def)

lemma bespoke_dropdown_bounds:
  "0 \<le> fst (bespoke_dropdown base)" "fst (bespoke_dropdown base) \<le> 400"
  "0 \<le> fst (snd (bespoke_dropdown base))" "fst (snd (bespoke_dropdown base)) \<le> 2431"
  using ideal_dropdown_nonneg [of base]
  by (simp_all add: bespoke_dropdown_def Let_def MAX_DROPDOWN_LIMIT_def MAX_DOOR_HEIGHT_def)

lemma top_liner_options_range:
  "TOP_LINER_OPTIONS option = Some v \<Longrightarrow> 0 \<le> v \<and> v \<le> 108"
  by (auto simp: TOP_LINER_OPTIONS_def split: if_splits)

lemma selected_dropdown_bounds:
  "0 \<le> fst (selected_dropdown option base)" "fst (selected_dropdown option base) \<le> 400"
  "0 \<le> fst (snd (selected_dropdown option base))"
  "fst (snd (selected_dropdown option base)) \<le> 2431"
  using top_liner_options_range [of option]
  by (auto simp: selected_dropdown_def Let_def MAX_DROPDOWN_LIMIT_def MAX_DOOR_HEIGHT_def
      split: option.splits)

text \<open>
  Claim C5. With made-to-measure doors, for a selected dropdown and for the bespoke one,
  the dropdown height of the result lies between 0 and 400 and its door height between 0
  and 2431.
\<close>

theorem made_to_measure_bounds:
  assumes "Width_mm row = Some w" "Height_mm row = Some h" "Doors row = Some d"
    and "Door_System row \<noteq> Some ''Fixed 2223mm doors''"
  shows "\<exists>r. calculate_for_row row = Inr r
           \<and> 0 \<le> Dropdown_Height_mm r \<and> Dropdown_Height_mm r \<le> 400
           \<and> 0 \<le> Door_Height_mm r \<and> Door_Height_mm r \<le> 2431"
proof -
  let ?r = "made_to_measure_mode row (max (py_float w) 1) (max (py_float h) 1)
              (max (py_int d) 1)"
  have "calculate_for_row row = Inr ?r"
    using assms by (rule calculate_made_to_measure)
  moreover have "0 \<le> Dropdown_Height_mm ?r"
    unfolding mtm_fields
    by (rule py_round_lower) (simp add: bespoke_dropdown_bounds selected_dropdown_bounds)
  moreover have "Dropdown_Height_mm ?r \<le> 400"
    unfolding mtm_fields
    by (rule py_round_upper) (simp add: bespoke_dropdown_bounds selected_dropdown_bounds)
  moreover have "0 \<le> Door_Height_mm ?r"
    unfolding mtm_fields
    by (rule py_round_lower) (simp add: bespoke_dropdown_bounds selected_dropdown_bounds)
  moreover have "Door_Height_mm ?r \<le> 2431"
    unfolding mtm_fields
    by (rule py_round_upper) (simp add: bespoke_dropdown_bounds selected_dropdown_bounds)
  ultimately show ?thesis by blast
qed

theorem made_to_measure_bounds_witness:
  "Door_System (DEFAULT_DATA\<lparr>Height_mm := Some 3000,
       Top_Liner_Option := Some BESPOKE_DROPDOWN_LABEL\<rparr>) \<noteq> Some ''Fixed 2223mm doors''
   \<and> (\<exists>r. calculate_for_row (DEFAULT_DATA\<lparr>Height_mm := Some 3000,
             Top_Liner_Option := Some BESPOKE_DROPDOWN_LABEL\<rparr>) = Inr r
        \<and> 0 \<le> Dropdown_Height_mm r \<and> Dropdown_Height_mm r \<le> 400
        \<and> 0 \<le> Door_Height_mm r \<and> Door_Height_mm r \<le> 2431)"
proof -
  let ?row = "DEFAULT_DATA\<lparr>Height_mm := Some 3000,
                Top_Liner_Option := Some BESPOKE_DROPDOWN_LABEL\<rparr>"
  have present: "Width_mm ?row = Some 2200" "Height_mm ?row = Some 3000" "Doors ?row = Some 3"
    and other: "Door_System ?row \<noteq> Some ''Fixed 2223mm doors''"
    by (simp_all add: DEFAULT_DATA_def)
  from made_to_measure_bounds [OF present other] other show ?thesis
    by blast
qed

subsection \<open>Scenario B\<close>

text \<open>
  Claim C6. A 2200mm by 2600mm opening with three fixed doors of 762mm gets doors of
  2223mm, a dropdown of 287mm, side liners of 32mm (14mm of build-out on each side), a
  net width of 2136mm, a door span of 2286mm, an overlap tolerance of 150mm, no span
  difference, and the status OK. The top liner option of the row is not read.
\<close>

theorem scenario_B_fixed:
  "calculate_for_row
     \<lparr> Width_mm = Some 2200, Height_mm = Some 2600, Doors = Some 3,
       Door_System = Some ''Fixed 2223mm doors'', Top_Liner_Option = opt,
       Fixed_Door_Width_mm = Some 762 \<rparr>
   = Inr \<lparr> Door_Height_mm = 2223, Door_Width_mm = 762, Doors_Used = 3,
           Dropdown_Height_mm = 287, Recommended_Dropdown_Height_mm = None,
           Side_Liner_Thickness_mm = 32, Required_Buildout_Per_Side_mm = 14,
           Net_Width_mm = 2136, Door_Span_mm = 2286, Overlap_Tolerance_mm = 150,
           Span_Diff_mm = 0, Bottom_Liner_Length_mm = 2136, Side_Liner_Length_mm = 2600,
           Dropdown_Length_mm = 2136, Trackset_Tolerance_mm = 54,
           Height_Status = ''OK'', Issue = issue_ok \<rparr>"
  by code_simp

theorem scenario_B_fixed_witness:
  "calculate_for_row
     \<lparr> Width_mm = Some 2200, Height_mm = Some 2600, Doors = Some 3,
       Door_System = Some ''Fixed 2223mm doors'', Top_Liner_Option = None,
       Fixed_Door_Width_mm = Some 762 \<rparr>
   = Inr \<lparr> Door_Height_mm = 2223, Door_Width_mm = 762, Doors_Used = 3,
           Dropdown_Height_mm = 287, Recommended_Dropdown_Height_mm = None,
           Side_Liner_Thickness_mm = 32, Required_Buildout_Per_Side_mm = 14,
           Net_Width_mm = 2136, Door_Span_mm = 2286, Overlap_Tolerance_mm = 150,
           Span_Diff_mm = 0, Bottom_Liner_Length_mm = 2136, Side_Liner_Length_mm = 2600,
           Dropdown_Length_mm = 2136, Trackset_Tolerance_mm = 54,
           Height_Status = ''OK'', Issue = issue_ok \<rparr>"
  by (rule scenario_B_fixed [of None])

subsection \<open>The issue flag\<close>

lemma issue_ok_neq_check: "issue_ok \<noteq> issue_check"
  by (simp add: issue_ok_def issue_check_def)

text \<open>
  The fixed branch compares the status with \<^verbatim>\<open>"OK"\<close>; none of its other two messages
  begins with \<^verbatim>\<open>OK\<close>, so the comparison agrees with the prefix test of the other branch.
\<close>

lemma fixed_status_prefix:
  "prefix ''OK'' (Height_Status (fixed_mode row width height doors))
   \<longleftrightarrow> Height_Status (fixed_mode row width height doors) = ''OK''"
  by (simp add: fixed_mode_def Let_def case_prod_beta)

lemma fixed_issue:
  "Issue (fixed_mode row width height doors) =
     (if Height_Status (fixed_mode row width height doors) = ''OK'' then issue_ok
      else issue_check)"
  by (simp add: fixed_mode_def Let_def case_prod_beta)

lemma mtm_issue:
  "Issue (made_to_measure_mode row width height doors) =
     (if prefix ''OK'' (Height_Status (made_to_measure_mode row width height doors))
      then issue_ok else issue_check)"
  by (simp add: made_to_measure_mode_def Let_def case_prod_beta)

text \<open>
  Claim C7. In both branches the issue flag of a result is the OK flag exactly when the
  height status begins with \<^verbatim>\<open>OK\<close>, and the check flag otherwise.
\<close>

theorem issue_ok_iff_status_ok:
  assumes "calculate_for_row row = Inr r"
  shows "(Issue r = issue_ok \<longleftrightarrow> prefix ''OK'' (Height_Status r))
         \<and> (\<not> prefix ''OK'' (Height_Status r) \<longrightarrow> Issue r = issue_check)"
proof -
  from assms obtain w h d where
    "r = fixed_mode row (max (py_float w) 1) (max (py_float h) 1) (max (py_int d) 1)
     \<or> r = made_to_measure_mode row (max (py_float w) 1) (max (py_float h) 1)
             (max (py_int d) 1)"
    by (rule calculate_for_row_cases)
  then show ?thesis
  proof
    assume "r = fixed_mode row (max (py_float w) 1) (max (py_float h) 1) (max (py_int d) 1)"
    then show ?thesis
      using fixed_issue fixed_status_prefix issue_ok_neq_check by simp
  next
    assume "r = made_to_measure_mode row (max (py_float w) 1) (max (py_float h) 1)
                  (max (py_int d) 1)"
    then show ?thesis
      using mtm_issue issue_ok_neq_check by simp
  qed
qed

theorem issue_ok_iff_status_ok_witness:
  "\<exists>r. calculate_for_row DEFAULT_DATA = Inr r
       \<and> Issue r = issue_ok \<and> prefix ''OK'' (Height_Status r)"
  using issue_ok_iff_status_ok [OF scenario_A_made_to_measure] scenario_A_made_to_measure
  by simp

subsection \<open>The status of a bespoke dropdown\<close>

lemma str_int_constants:
  "str_int MAX_DROPDOWN_LIMIT = ''400''" "str_int TRACKSET_TOLERANCE = ''54''"
  "str_int MAX_DOOR_HEIGHT = ''2431''"
  by (simp_all add: str_int_def str_nat.simps constants_defs)

text \<open>The final door height of the bespoke branch is a minimum with the cap.\<close>

lemma bespoke_final_door_h_capped:
  "fst (snd (bespoke_dropdown base)) \<le> of_int MAX_DOOR_HEIGHT"
  by (simp add: bespoke_dropdown_def Let_def)

lemma bespoke_status:
  "fst (snd (snd (bespoke_dropdown base))) =
     (if ideal_dropdown base \<le> 400 then ''OK (bespoke dropdown auto-calculated for fit)''
      else ''Too tall for perfect fit with max 400mm bespoke dropdown (ideal dropdown would be about ''
             @ str_int (py_round (ideal_dropdown base))
             @ ''mm). Door height capped at 2431mm.'')"
  by (simp add: bespoke_dropdown_def Let_def str_int_constants)
    (simp add: MAX_DROPDOWN_LIMIT_def MAX_DOOR_HEIGHT_def)

text \<open>
  Claim C9. With a bespoke dropdown the status is never the fallback message
  \<^verbatim>\<open>Check height / dropdown settings.\<close>: it is the bespoke OK message exactly when
  the ideal dropdown is at most 400mm, and the too-tall message otherwise.
\<close>

theorem bespoke_fallback_unreachable:
  assumes "Width_mm row = Some w" "Height_mm row = Some h" "Doors row = Some d"
    and "Door_System row \<noteq> Some ''Fixed 2223mm doors''"
    and "Top_Liner_Option row = Some BESPOKE_DROPDOWN_LABEL"
  shows "\<exists>r. calculate_for_row row = Inr r
           \<and> Height_Status r \<noteq> ''Check height / dropdown settings.''
           \<and> Height_Status r =
               (if ideal_dropdown (base_usable_height (max (py_float h) 1)) \<le> 400
                then ''OK (bespoke dropdown auto-calculated for fit)''
                else ''Too tall for perfect fit with max 400mm bespoke dropdown (ideal dropdown would be about ''
                       @ str_int (py_round
                            (ideal_dropdown (base_usable_height (max (py_float h) 1))))
                       @ ''mm). Door height capped at 2431mm.'')"
proof -
  let ?r = "made_to_measure_mode row (max (py_float w) 1) (max (py_float h) 1)
              (max (py_int d) 1)"
  have c: "calculate_for_row row = Inr ?r"
    using assms(1-4) by (rule calculate_made_to_measure)
  have s: "Height_Status ?r =
      fst (snd (snd (bespoke_dropdown (base_usable_height (max (py_float h) 1)))))"
    unfolding mtm_fields using assms(5) by simp
  have "Height_Status ?r \<noteq> ''Check height / dropdown settings.''"
    unfolding s bespoke_status by simp
  with c s show ?thesis
    unfolding bespoke_status by blast
qed

lemma ideal_dropdown_3000:
  "ideal_dropdown (base_usable_height (max (py_float 3000) 1)) = 479"
  by code_simp

lemma str_int_479: "str_int 479 = ''479''"
  by (simp add: str_int_def str_nat.simps)

theorem bespoke_fallback_unreachable_witness:
  "Door_System (DEFAULT_DATA\<lparr>Height_mm := Some 3000,
       Top_Liner_Option := Some BESPOKE_DROPDOWN_LABEL\<rparr>) \<noteq> Some ''Fixed 2223mm doors''
   \<and> (\<exists>r. calculate_for_row (DEFAULT_DATA\<lparr>Height_mm := Some 3000,
             Top_Liner_Option := Some BESPOKE_DROPDOWN_LABEL\<rparr>) = Inr r
        \<and> Height_Status r \<noteq> ''Check height / dropdown settings.''
        \<and> Height_Status r =
            ''Too tall for perfect fit with max 400mm bespoke dropdown (ideal dropdown would be about 479mm). Door height capped at 2431mm.'')"
proof -
  let ?row = "DEFAULT_DATA\<lparr>Height_mm := Some 3000,
                Top_Liner_Option := Some BESPOKE_DROPDOWN_LABEL\<rparr>"
  have present: "Width_mm ?row = Some 2200" "Height_mm ?row = Some 3000" "Doors ?row = Some 3"
    and other: "Door_System ?row \<noteq> Some ''Fixed 2223mm doors''"
    and bespoke: "Top_Liner_Option ?row = Some BESPOKE_DROPDOWN_LABEL"
    by (simp_all add: DEFAULT_DATA_def)
  have "\<not> ideal_dropdown (base_usable_height (max (py_float 3000) 1)) \<le> 400"
    unfolding ideal_dropdown_3000 by simp
  with bespoke_fallback_unreachable [OF present other bespoke] other show ?thesis
    unfolding ideal_dropdown_3000 str_int_479 py_round_numeral by simp
qed

subsection \<open>A single fixed door\<close>

text \<open>The span of one door is its width.\<close>

lemma one_door_span: "fixed_door_span row 1 = fixed_door_width row"
proof -
  have "py_float (fixed_door_width row) = fixed_door_width row"
    using fixed_door_width_cases [of row] by (auto simp: py_float_numeral)
  then show ?thesis
    by (simp add: fixed_door_span_def fmul_def)
qed

text \<open>
  Claim C10. The table of overlap tolerances has no entry for one door. With one fixed
  door the calculation uses the default tolerance of 150mm and returns a result: the
  raw side liner thickness is \<open>(width - door_width + 150) / 2\<close> in float operations,
  reported clamped at 0 and rounded to one decimal as for every door count.
\<close>

theorem one_fixed_door_default_tolerance:
  assumes "Width_mm row = Some w" "Height_mm row = Some h" "Doors row = Some 1"
    and "Door_System row = Some ''Fixed 2223mm doors''"
  shows "OVERLAP_TOLERANCES 1 = None
         \<and> (\<exists>r. calculate_for_row row = Inr r
               \<and> Overlap_Tolerance_mm r = 150
               \<and> Side_Liner_Thickness_mm r =
                   py_round1
                     (if fdiv (fadd (fsub (max (py_float w) 1) (fixed_door_width row)) 150) 2 < 0
                      then 0
                      else fdiv (fadd (fsub (max (py_float w) 1) (fixed_door_width row)) 150) 2))"
proof -
  let ?r = "fixed_mode row (max (py_float w) 1) (max (py_float h) 1) 1"
  have t: "fixed_tol 1 = 150"
    by (simp add: fixed_tol_def OVERLAP_TOLERANCES_def DEFAULT_FIXED_OVERLAP_TOLERANCE_def)
  have "calculate_for_row row = Inr ?r"
    using calculate_fixed [OF assms] by simp
  moreover have "Overlap_Tolerance_mm ?r = 150"
    by (simp add: fixed_mode_fields t)
  moreover have "Side_Liner_Thickness_mm ?r =
      py_round1
        (if fdiv (fadd (fsub (max (py_float w) 1) (fixed_door_width row)) 150) 2 < 0 then 0
         else fdiv (fadd (fsub (max (py_float w) 1) (fixed_door_width row)) 150) 2)"
    unfolding fixed_mode_fields t one_door_span clamp_side_thk_def side_thk_raw_def by simp
  moreover have "OVERLAP_TOLERANCES 1 = None"
    by (simp add: OVERLAP_TOLERANCES_def)
  ultimately show ?thesis by blast
qed

theorem one_fixed_door_default_tolerance_witness:
  "Doors (DEFAULT_DATA\<lparr>Doors := Some 1, Door_System := Some ''Fixed 2223mm doors''\<rparr>)
     = Some 1
   \<and> OVERLAP_TOLERANCES 1 = None
   \<and> (\<exists>r. calculate_for_row
            (DEFAULT_DATA\<lparr>Doors := Some 1, Door_System := Some ''Fixed 2223mm doors''\<rparr>)
          = Inr r
        \<and> Overlap_Tolerance_mm r = 150 \<and> Side_Liner_Thickness_mm r = 794)"
proof -
  let ?row = "DEFAULT_DATA\<lparr>Doors := Some 1, Door_System := Some ''Fixed 2223mm doors''\<rparr>"
  have present: "Width_mm ?row = Some 2200" "Height_mm ?row = Some 2600" "Doors ?row = Some 1"
    and fixed: "Door_System ?row = Some ''Fixed 2223mm doors''"
    by (simp_all add: DEFAULT_DATA_def)
  have thickness:
    "py_round1
       (if fdiv (fadd (fsub (max (py_float 2200) 1) (fixed_door_width ?row)) 150) 2 < 0 then 0
        else fdiv (fadd (fsub (max (py_float 2200) 1) (fixed_door_width ?row)) 150) 2) = 794"
    by code_simp
  from one_fixed_door_default_tolerance [OF present fixed] present(3) show ?thesis
    unfolding thickness by blast
qed

subsection \<open>The doors of the diagram\<close>










end
